theory Spec2Isabelle
  imports Complex_Main "HOL-Library.Word"
begin

section \<open>The MEX interface used by bayesoptextras.h\<close>

text \<open>
  The header \<^verbatim>\<open>matlab/bayesoptextras.h\<close> sits between the host (Matlab/Octave, reached
  through \<^verbatim>\<open>mex.h\<close>) and the optimisation engine (\<^verbatim>\<open>parameters.h\<close>,
  \<^verbatim>\<open>bayesoptwpr.h\<close>). The host's values are \<^verbatim>\<open>mxArray\<close>s. The model keeps of an
  array what the header asks of it: its class, whether it is complex, its two dimensions
  (\<^verbatim>\<open>size_t\<close>, so 64-bit words whose product wraps as in C), its elements, and for a char
  array its text. A C \<^verbatim>\<open>double\<close> is modelled as a real number.
\<close>

datatype mxClassID =
    mxUNKNOWN_CLASS | mxCELL_CLASS | mxSTRUCT_CLASS | mxLOGICAL_CLASS | mxCHAR_CLASS
  | mxVOID_CLASS | mxDOUBLE_CLASS | mxSINGLE_CLASS | mxINT8_CLASS | mxUINT8_CLASS
  | mxINT16_CLASS | mxUINT16_CLASS | mxINT32_CLASS | mxUINT32_CLASS | mxINT64_CLASS
  | mxUINT64_CLASS | mxFUNCTION_CLASS

record mxArray =
  mxGetClassID :: mxClassID
  mxIsComplex :: bool
  mxGetM :: "64 word"
  mxGetN :: "64 word"
  mxGetData :: "real list"
  mxArrayToString :: string

definition mxIsNumeric :: "mxArray \<Rightarrow> bool" where
  "mxIsNumeric a =
     (case mxGetClassID a of
        mxDOUBLE_CLASS \<Rightarrow> True | mxSINGLE_CLASS \<Rightarrow> True
      | mxINT8_CLASS \<Rightarrow> True | mxUINT8_CLASS \<Rightarrow> True
      | mxINT16_CLASS \<Rightarrow> True | mxUINT16_CLASS \<Rightarrow> True
      | mxINT32_CLASS \<Rightarrow> True | mxUINT32_CLASS \<Rightarrow> True
      | mxINT64_CLASS \<Rightarrow> True | mxUINT64_CLASS \<Rightarrow> True
      | _ \<Rightarrow> False)"

definition mxIsDouble :: "mxArray \<Rightarrow> bool" where
  "mxIsDouble a = (mxGetClassID a = mxDOUBLE_CLASS)"

definition mxIsChar :: "mxArray \<Rightarrow> bool" where
  "mxIsChar a = (mxGetClassID a = mxCHAR_CLASS)"

text \<open>
  A call either returns, or leaves through \<^verbatim>\<open>mexErrMsgTxt\<close> with its message (control goes
  back to the host and the MEX function is over), or does something whose result C does
  not define or that hangs on bytes the model does not have: a read through a null
  pointer, a read of a buffer of another element type as doubles, a read past the end of
  a buffer, a copy into a buffer the native caller made too short. That is no error the
  program raises; the model marks it so that no theorem can claim a result for it.
\<close>

datatype error = mexErrMsgTxt string | Undefined_Behaviour

definition and_then :: "error + 'a \<Rightarrow> ('a \<Rightarrow> error + 'b) \<Rightarrow> error + 'b" where
  "and_then r k = (case r of Inl e \<Rightarrow> Inl e | Inr v \<Rightarrow> k v)"

text \<open>What the header prints and what it asks of the host, in the order it happens.\<close>

datatype event =
    Field_not_found string
      \<comment> \<open>\<^verbatim>\<open>mexPrintf("Field %s not found. Default not modified.\n", name)\<close>\<close>
  | Optimize_eval "32 word" real
      \<comment> \<open>\<^verbatim>\<open>mexPrintf("Optimize eval #%d: %g\n", d->neval, f)\<close>\<close>
  | Call_MATLAB int int "mxArray option \<times> mxArray option" string
      \<comment> \<open>\<^verbatim>\<open>mexCallMATLAB(nlhs, plhs, nrhs, prhs, name)\<close>: nlhs, nrhs, prhs, name\<close>
  | Destroy_Array mxArray
      \<comment> \<open>\<^verbatim>\<open>mxDestroyArray\<close>\<close>

text \<open>
  The configuration is a 1-by-1 struct array: field names to values. \<^verbatim>\<open>mxGetField\<close>
  returns a null pointer for a field that is not there.
\<close>

type_synonym config = "string \<Rightarrow> mxArray option"

definition mxGetField :: "config \<Rightarrow> nat \<Rightarrow> string \<Rightarrow> mxArray option" where
  "mxGetField s i name = (if i = 0 then s name else None)"

text \<open>
  \<^verbatim>\<open>mxGetScalar\<close> is the first element as a double; an array with no element has none.
  \<^verbatim>\<open>mxGetPr\<close> is the pointer to the elements of a double array; what it points to for
  another class is not an array of doubles.
\<close>

definition mxGetScalar :: "mxArray \<Rightarrow> error + real" where
  "mxGetScalar a = (case mxGetData a of [] \<Rightarrow> Inl Undefined_Behaviour | v # _ \<Rightarrow> Inr v)"

definition mxGetPr :: "mxArray \<Rightarrow> error + real list" where
  "mxGetPr a = (if mxIsDouble a then Inr (mxGetData a) else Inl Undefined_Behaviour)"

text \<open>
  \<^verbatim>\<open>memcpy(dest, src, nbytes)\<close> on buffers of doubles (\<^verbatim>\<open>sizeof(double)\<close> is 8): the
  first \<open>nbytes div 8\<close> elements of \<open>dest\<close> are replaced by those of \<open>src\<close>. Both
  buffers must be that long.
\<close>

definition sizeof_double :: "64 word" where
  "sizeof_double = 8"

definition memcpy :: "real list \<Rightarrow> real list \<Rightarrow> 64 word \<Rightarrow> error + real list" where
  "memcpy dest src nbytes =
     (let k = unat nbytes div 8 in
      if k \<le> length dest \<and> k \<le> length src then Inr (take k src @ drop k dest)
      else Inl Undefined_Behaviour)"

text \<open>
  That is the copy between buffers whose length is fixed by the native caller, as in the
  callback. In \<^verbatim>\<open>struct_array\<close> the number of elements comes from the configuration and
  nothing compares it with the destination. When there are more elements than the
  buffer holds, \<^verbatim>\<open>memcpy\<close> writes the buffer full and goes on past its end, into whatever
  the layout of \<^verbatim>\<open>bopt_params\<close> (in \<^verbatim>\<open>parameters.h\<close>) puts there, and the call returns
  all the same. The model of that copy keeps the buffer at its length, overwritten as
  far as it goes, and does not say where the other elements land. Reading more elements
  than the source has stays outside the model.
\<close>

definition memcpy_past_end :: "real list \<Rightarrow> real list \<Rightarrow> 64 word \<Rightarrow> error + real list" where
  "memcpy_past_end dest src nbytes =
     (let k = unat nbytes div 8 in
      if k \<le> length src then Inr (take (length dest) (take k src @ drop k dest))
      else Inl Undefined_Behaviour)"

text \<open>
  \<^verbatim>\<open>strcpy\<close> into a \<^verbatim>\<open>char[cap]\<close>: the text and its terminating zero must fit.
\<close>

definition strcpy :: "nat \<Rightarrow> string \<Rightarrow> error + string" where
  "strcpy cap src = (if length src < cap then Inr src else Inl Undefined_Behaviour)"

text \<open>
  The cast \<^verbatim>\<open>(size_t) v\<close> of a double drops the fraction (towards zero). C defines the
  result only when the truncated value is a \<^verbatim>\<open>size_t\<close>. Outside that range the model
  follows the conversion x86-64 compilers emit: a double below \<open>2 ^ 63\<close> is converted as
  a signed 64-bit integer, which wraps a negative value modulo \<open>2 ^ 64\<close> and gives
  \<open>2 ^ 63\<close> for a value below \<open>- 2 ^ 63\<close>; a double from \<open>2 ^ 63\<close> on is converted
  less \<open>2 ^ 63\<close> with the top bit put back, which gives 0 from \<open>2 ^ 64\<close> on.
\<close>

definition towards_zero :: "real \<Rightarrow> int" where
  "towards_zero v = (if 0 \<le> v then \<lfloor>v\<rfloor> else - \<lfloor>- v\<rfloor>)"

definition size_t_of_double :: "real \<Rightarrow> 64 word" where
  "size_t_of_double v =
     (if v < 2 ^ 63
      then (if - (2 ^ 63) \<le> v then word_of_int (towards_zero v) else 2 ^ 63)
      else (if v < 2 ^ 64 then word_of_int (towards_zero v) else 0))"

section \<open>The field accessors\<close>

text \<open>
  Each accessor takes the struct, the field's name and the current value of the variable
  its output pointer refers to, and returns the variable's value afterwards together
  with the output printed so far.
\<close>

definition struct_value :: "config \<Rightarrow> string \<Rightarrow> real \<Rightarrow> event list \<Rightarrow> error + real \<times> event list" where
  "struct_value s name result out =
     (case mxGetField s 0 name of
        Some val \<Rightarrow>
          if \<not> (mxIsNumeric val \<and> \<not> mxIsComplex val \<and> mxGetM val * mxGetN val = 1)
          then Inl (mexErrMsgTxt ''param fields must be real scalars'')
          else and_then (mxGetScalar val) (\<lambda>v. Inr (v, out))
      | None \<Rightarrow> Inr (result, out @ [Field_not_found name]))"

definition struct_array :: "config \<Rightarrow> string \<Rightarrow> 64 word \<Rightarrow> real list \<Rightarrow> event list
    \<Rightarrow> error + 64 word \<times> real list \<times> event list" where
  "struct_array s name n result out =
     (case mxGetField s 0 name of
        Some val \<Rightarrow>
          if \<not> (mxIsNumeric val \<and> \<not> mxIsComplex val)
          then Inl (mexErrMsgTxt ''Param fields must be vector'')
          else
            (let n' = mxGetM val * mxGetN val in
             and_then (mxGetPr val) (\<lambda>src.
             and_then (memcpy_past_end result src (n' * sizeof_double)) (\<lambda>result'.
             Inr (n', result', out))))
      | None \<Rightarrow> Inr (n, result, out @ [Field_not_found name]))"

definition struct_size :: "config \<Rightarrow> string \<Rightarrow> 64 word \<Rightarrow> event list \<Rightarrow> error + 64 word \<times> event list" where
  "struct_size s name result out =
     (case mxGetField s 0 name of
        Some val \<Rightarrow>
          if \<not> (mxIsNumeric val \<and> \<not> mxIsComplex val \<and> mxGetM val * mxGetN val = 1)
          then Inl (mexErrMsgTxt ''param fields must be real scalars'')
          else and_then (mxGetScalar val) (\<lambda>v. Inr (size_t_of_double v, out))
      | None \<Rightarrow> Inr (result, out @ [Field_not_found name]))"

text \<open>
  \<^verbatim>\<open>struct_string\<close> takes its output as \<^verbatim>\<open>char* result\<close>, by value. The assignment
  \<^verbatim>\<open>result = mxArrayToString(val)\<close> rebinds the function's own copy of the pointer
  (\<open>local\<close> below), which ends with the call; the caller's text is what it was.
\<close>

definition struct_string :: "config \<Rightarrow> string \<Rightarrow> string \<Rightarrow> event list \<Rightarrow> error + string \<times> event list" where
  "struct_string s name result out =
     (case mxGetField s 0 name of
        Some val \<Rightarrow>
          if mxIsChar val
          then (let local = mxArrayToString val in Inr (result, out))
          else Inl (mexErrMsgTxt ''Method name must be a string'')
      | None \<Rightarrow> Inr (result, out @ [Field_not_found name]))"

section \<open>The parameter record and its loader\<close>

text \<open>
  \<^verbatim>\<open>bopt_params\<close> is declared in \<^verbatim>\<open>parameters.h\<close>, which is not among the sources at
  hand. The records hold the fields \<^verbatim>\<open>load_parameters\<close> names; the C fields
  \<^verbatim>\<open>kernel.name\<close> and \<^verbatim>\<open>mean.name\<close> are \<open>kernel_name\<close> and \<open>mean_name\<close> here.
  The two enumerations are type parameters. Fields the header never names are left out:
  nothing in it reads or writes them.
\<close>

record kernel_parameters =
  kernel_name :: string
  theta :: "real list"
  s_theta :: "real list"
  n_theta :: "64 word"

record mean_parameters =
  mean_name :: string
  mu :: "real list"
  s_mu :: "real list"
  n_mu :: "64 word"

record ('s, 'l) bopt_params =
  n_iterations :: "64 word"
  n_inner_iterations :: "64 word"
  n_init_samples :: "64 word"
  verbose_level :: "64 word"
  log_filename :: string
  surr_name :: 's
  noise :: real
  alpha :: real
  beta :: real
  l_type :: 'l
  kernel :: kernel_parameters
  mean :: mean_parameters
  crit_name :: string

text \<open>
  The engine's side, taken as given: the default record and the four conversions between
  the enumerations and their names.
\<close>

record ('s, 'l) engine =
  initialize_parameters_to_default :: "('s, 'l) bopt_params"
  surrogate2str :: "'s \<Rightarrow> string"
  str2surrogate :: "string \<Rightarrow> 's"
  learn2str :: "'l \<Rightarrow> string"
  str2learn :: "string \<Rightarrow> 'l"

definition load_parameters :: "('s, 'l) engine \<Rightarrow> config \<Rightarrow> error + ('s, 'l) bopt_params \<times> event list" where
  "load_parameters eng params =
     (let parameters = initialize_parameters_to_default eng;
          n_theta_local = n_theta (kernel parameters);
          n_mu_local = n_mu (mean parameters)
      in
      and_then (struct_size params ''n_iterations'' (n_iterations parameters) []) (\<lambda>(v, out).
      let parameters = parameters\<lparr>n_iterations := v\<rparr> in
      and_then (struct_size params ''n_inner_iterations'' (n_inner_iterations parameters) out) (\<lambda>(v, out).
      let parameters = parameters\<lparr>n_inner_iterations := v\<rparr> in
      and_then (struct_size params ''n_init_iterations'' (n_init_samples parameters) out) (\<lambda>(v, out).
      let parameters = parameters\<lparr>n_init_samples := v\<rparr> in
      and_then (struct_size params ''verbose_level'' (verbose_level parameters) out) (\<lambda>(v, out).
      let parameters = parameters\<lparr>verbose_level := v\<rparr> in
      and_then (struct_value params ''alpha'' (alpha parameters) out) (\<lambda>(v, out).
      let parameters = parameters\<lparr>alpha := v\<rparr> in
      and_then (struct_value params ''beta'' (beta parameters) out) (\<lambda>(v, out).
      let parameters = parameters\<lparr>beta := v\<rparr> in
      and_then (struct_value params ''noise'' (noise parameters) out) (\<lambda>(v, out).
      let parameters = parameters\<lparr>noise := v\<rparr> in
      and_then (struct_array params ''theta'' (n_theta (kernel parameters))
                  (theta (kernel parameters)) out) (\<lambda>(n, buf, out).
      let parameters = parameters\<lparr>kernel := (kernel parameters)\<lparr>n_theta := n, theta := buf\<rparr>\<rparr> in
      and_then (struct_array params ''s_theta'' n_theta_local
                  (s_theta (kernel parameters)) out) (\<lambda>(n_theta_local, buf, out).
      let parameters = parameters\<lparr>kernel := (kernel parameters)\<lparr>s_theta := buf\<rparr>\<rparr> in
      if \<not> (n_theta (kernel parameters) = n_theta_local)
      then Inl (mexErrMsgTxt ''Error processing kernel parameters'')
      else
      and_then (struct_array params ''mu'' (n_mu (mean parameters))
                  (mu (mean parameters)) out) (\<lambda>(n, buf, out).
      let parameters = parameters\<lparr>mean := (mean parameters)\<lparr>n_mu := n, mu := buf\<rparr>\<rparr> in
      and_then (struct_array params ''s_mu'' n_mu_local
                  (s_mu (mean parameters)) out) (\<lambda>(n_mu_local, buf, out).
      let parameters = parameters\<lparr>mean := (mean parameters)\<lparr>s_mu := buf\<rparr>\<rparr> in
      if \<not> (n_mu (mean parameters) = n_mu_local)
      then Inl (mexErrMsgTxt ''Error processing mean parameters'')
      else
      and_then (struct_string params ''log_filename'' (log_filename parameters) out) (\<lambda>(t, out).
      let parameters = parameters\<lparr>log_filename := t\<rparr> in
      and_then (struct_string params ''kernel_name'' (kernel_name (kernel parameters)) out) (\<lambda>(t, out).
      let parameters = parameters\<lparr>kernel := (kernel parameters)\<lparr>kernel_name := t\<rparr>\<rparr> in
      and_then (struct_string params ''mean_name'' (mean_name (mean parameters)) out) (\<lambda>(t, out).
      let parameters = parameters\<lparr>mean := (mean parameters)\<lparr>mean_name := t\<rparr>\<rparr> in
      and_then (struct_string params ''crit_name'' (crit_name parameters) out) (\<lambda>(t, out).
      let parameters = parameters\<lparr>crit_name := t\<rparr> in
      and_then (strcpy 100 (surrogate2str eng (surr_name parameters))) (\<lambda>s_str.
      and_then (struct_string params ''surr_name'' s_str out) (\<lambda>(s_str, out).
      let parameters = parameters\<lparr>surr_name := str2surrogate eng s_str\<rparr> in
      and_then (strcpy 100 (learn2str eng (l_type parameters))) (\<lambda>l_str.
      and_then (struct_string params ''l_type'' l_str out) (\<lambda>(l_str, out).
      let parameters = parameters\<lparr>l_type := str2learn eng l_str\<rparr> in
      Inr (parameters, out)))))))))))))))))))))"

section \<open>The callback bridge\<close>

text \<open>
  \<^verbatim>\<open>user_function_data\<close>: the name of the host function (\<^verbatim>\<open>char f[FLEN]\<close>, here
  \<open>f_name\<close>), the two result slots, the two argument slots (\<^verbatim>\<open>MAXRHS\<close> is 2), the
  position of the point among the arguments, the number of arguments, the verbosity flag
  and the evaluation counter. A slot is a pointer: \<open>None\<close> is the null pointer. The
  two arguments are taken to be distinct arrays. The counter is a C \<^verbatim>\<open>int\<close>, kept as
  its 32 bits; C leaves \<^verbatim>\<open>neval++\<close> at \<^verbatim>\<open>INT_MAX\<close> undefined, the model wraps.
\<close>

record user_function_data =
  f_name :: string
  plhs :: "mxArray option \<times> mxArray option"
  prhs :: "mxArray option \<times> mxArray option"
  xrhs :: int
  nrhs :: int
  verbose :: int
  neval :: "32 word"

text \<open>
  The host's side of \<^verbatim>\<open>mexCallMATLAB(nlhs, plhs, nrhs, prhs, name)\<close>, taken as given: the
  status it returns and the result slots as it leaves them.
\<close>

type_synonym host =
  "int \<Rightarrow> mxArray option \<times> mxArray option \<Rightarrow> int \<Rightarrow> mxArray option \<times> mxArray option \<Rightarrow> string
     \<Rightarrow> int \<times> (mxArray option \<times> mxArray option)"

text \<open>Element \<open>i\<close> of a two-element C array; any other index is outside it.\<close>

definition slot :: "'a \<times> 'a \<Rightarrow> int \<Rightarrow> error + 'a" where
  "slot arr i =
     (if i = 0 then Inr (fst arr) else if i = 1 then Inr (snd arr) else Inl Undefined_Behaviour)"

definition slot_update :: "'a \<times> 'a \<Rightarrow> int \<Rightarrow> 'a \<Rightarrow> 'a \<times> 'a" where
  "slot_update arr i v = (if i = 0 then (v, snd arr) else if i = 1 then (fst arr, v) else arr)"

definition deref :: "'a option \<Rightarrow> error + 'a" where
  "deref p = (case p of None \<Rightarrow> Inl Undefined_Behaviour | Some a \<Rightarrow> Inr a)"

text \<open>
  A call of \<^verbatim>\<open>user_function\<close> ends with a value or an error, and either way leaves the
  callback state, the caller's gradient buffer (\<open>None\<close>: the caller passed a null
  pointer) and a trace behind. \<^verbatim>\<open>mxDestroyArray\<close> frees what a slot points to and leaves
  the pointer where it is: the trace has the call, and the slot keeps its content.
\<close>

record user_function_result =
  returned :: "error + real"
  d_after :: user_function_data
  gradient_after :: "real list option"
  events :: "event list"

text \<open>
  The first two statements of \<^verbatim>\<open>user_function\<close> (lines 144 and 146): both result slots
  are set to the null pointer, and the \<open>n\<close> coordinates of the point are copied into
  the buffer of the argument at position \<^verbatim>\<open>xrhs\<close>.
\<close>

definition store_point :: "32 word \<Rightarrow> real list \<Rightarrow> user_function_data \<Rightarrow> error + user_function_data" where
  "store_point n x d0 =
     (let d = d0\<lparr>plhs := (None, None)\<rparr> in
      and_then (slot (prhs d) (xrhs d)) (\<lambda>p.
      and_then (deref p) (\<lambda>a.
      and_then (mxGetPr a) (\<lambda>buf.
      and_then (memcpy buf x (ucast n * sizeof_double)) (\<lambda>buf'.
      Inr (d\<lparr>prhs := slot_update (prhs d) (xrhs d) (Some (a\<lparr>mxGetData := buf'\<rparr>))\<rparr>))))))"

text \<open>
  The gradient step (lines 158 to 165) on the second result slot and the caller's
  buffer: the buffer and the trace afterwards.
\<close>

definition read_gradient :: "32 word \<Rightarrow> mxArray option \<Rightarrow> real list \<Rightarrow> event list
    \<Rightarrow> error + real list \<times> event list" where
  "read_gradient n p gradient ev =
     and_then (deref p) (\<lambda>r1.
     if \<not> (mxIsDouble r1 \<and> \<not> mxIsComplex r1
             \<and> (mxGetM r1 = 1 \<or> mxGetN r1 = 1)
             \<and> mxGetM r1 * mxGetN r1 = ucast n)
     then Inl (mexErrMsgTxt ''gradient vector from user function is the wrong size'')
     else
       and_then (mxGetPr r1) (\<lambda>src.
       and_then (memcpy gradient src (ucast n * sizeof_double)) (\<lambda>gradient'.
       Inr (gradient', ev @ [Destroy_Array r1]))))"

definition user_function :: "host \<Rightarrow> 32 word \<Rightarrow> real list \<Rightarrow> real list option \<Rightarrow> user_function_data
    \<Rightarrow> user_function_result" where
  "user_function mexCallMATLAB n x gradient d0 =
     (case store_point n x d0 of
        Inl e \<Rightarrow> \<lparr>returned = Inl e, d_after = d0\<lparr>plhs := (None, None)\<rparr>,
                  gradient_after = gradient, events = []\<rparr>
      | Inr d \<Rightarrow>
         (let nlhs = (if gradient \<noteq> None then 2 else 1);
              ev = [Call_MATLAB nlhs (nrhs d) (prhs d) (f_name d)];
              (status, plhs') = mexCallMATLAB nlhs (plhs d) (nrhs d) (prhs d) (f_name d);
              d = d\<lparr>plhs := plhs'\<rparr>
          in
          if \<not> (0 = status)
          then \<lparr>returned = Inl (mexErrMsgTxt ''error calling user function''),
                d_after = d, gradient_after = gradient, events = ev\<rparr>
          else
           (case fst (plhs d) of
              None \<Rightarrow> \<lparr>returned = Inl Undefined_Behaviour,
                        d_after = d, gradient_after = gradient, events = ev\<rparr>
            | Some r0 \<Rightarrow>
                if \<not> (mxIsNumeric r0 \<and> \<not> mxIsComplex r0 \<and> mxGetM r0 * mxGetN r0 = 1)
                then \<lparr>returned = Inl (mexErrMsgTxt ''user function must return real scalar''),
                      d_after = d, gradient_after = gradient, events = ev\<rparr>
                else
                 (case mxGetScalar r0 of
                    Inl e \<Rightarrow> \<lparr>returned = Inl e, d_after = d, gradient_after = gradient, events = ev\<rparr>
                  | Inr f \<Rightarrow>
                     (let ev = ev @ [Destroy_Array r0] in
                      case
                        (case gradient of
                           None \<Rightarrow> Inr (None, ev)
                         | Some g \<Rightarrow>
                             and_then (read_gradient n (snd (plhs d)) g ev) (\<lambda>(g', ev).
                             Inr (Some g', ev)))
                      of
                        Inl e \<Rightarrow> \<lparr>returned = Inl e, d_after = d, gradient_after = gradient, events = ev\<rparr>
                      | Inr (gradient', ev) \<Rightarrow>
                         (let d = d\<lparr>neval := neval d + 1\<rparr>;
                              ev = (if verbose d \<noteq> 0 then ev @ [Optimize_eval (neval d) f] else ev)
                          in \<lparr>returned = Inr f, d_after = d, gradient_after = gradient', events = ev\<rparr>))))))"

section \<open>Vocabulary of the statements\<close>

text \<open>
  The number of elements of an array, as the header computes it; an array that passes the
  scalar test of \<^verbatim>\<open>struct_value\<close> and \<^verbatim>\<open>struct_size\<close> and holds its one element; an
  array of doubles that holds as many elements as its dimensions say.
\<close>

definition mxGetNumberOfElements :: "mxArray \<Rightarrow> 64 word" where
  "mxGetNumberOfElements a = mxGetM a * mxGetN a"

definition real_scalar :: "mxArray \<Rightarrow> bool" where
  "real_scalar val =
     (mxIsNumeric val \<and> \<not> mxIsComplex val \<and> mxGetM val * mxGetN val = 1
      \<and> length (mxGetData val) = 1)"

definition real_array :: "mxArray \<Rightarrow> bool" where
  "real_array val =
     (mxIsDouble val \<and> \<not> mxIsComplex val
      \<and> length (mxGetData val) = unat (mxGetM val * mxGetN val))"

text \<open>The names \<^verbatim>\<open>load_parameters\<close> looks up, in its order; the first seven are scalars.\<close>

definition scalar_fields :: "string list" where
  "scalar_fields =
     [''n_iterations'', ''n_inner_iterations'', ''n_init_iterations'', ''verbose_level'',
      ''alpha'', ''beta'', ''noise'']"

definition optional_fields :: "string list" where
  "optional_fields =
     [''n_iterations'', ''n_inner_iterations'', ''n_init_iterations'', ''verbose_level'',
      ''alpha'', ''beta'', ''noise'', ''theta'', ''s_theta'', ''mu'', ''s_mu'',
      ''log_filename'', ''kernel_name'', ''mean_name'', ''crit_name'', ''surr_name'', ''l_type'']"

text \<open>
  A configuration whose seven scalar fields are each absent or a scalar as above; a field
  that is absent or an array of doubles no longer than the buffer it is copied into; the
  count \<^verbatim>\<open>struct_array\<close> leaves in \<^verbatim>\<open>*n\<close>; the messages \<^verbatim>\<open>load_parameters\<close> and its
  accessors pass to \<^verbatim>\<open>mexErrMsgTxt\<close>; the four array fields and the buffer of the
  record each is copied into.
\<close>

definition scalars_accepted :: "config \<Rightarrow> bool" where
  "scalars_accepted s =
     list_all (\<lambda>name. case s name of None \<Rightarrow> True | Some val \<Rightarrow> real_scalar val) scalar_fields"

definition array_accepted :: "config \<Rightarrow> string \<Rightarrow> real list \<Rightarrow> bool" where
  "array_accepted s name buf =
     (case s name of
        None \<Rightarrow> True
      | Some val \<Rightarrow> real_array val \<and> unat (mxGetNumberOfElements val) \<le> length buf)"

definition count_after :: "config \<Rightarrow> string \<Rightarrow> 64 word \<Rightarrow> 64 word" where
  "count_after s name n = (case s name of None \<Rightarrow> n | Some val \<Rightarrow> mxGetNumberOfElements val)"




text \<open>
  For the callback: the numbers of results asked of the host, call by call; and the part
  of the callback state a call has no business with, which is the state with the result
  slots, the counter and the elements of the point's buffer blanked.
\<close>

fun requested_results :: "event list \<Rightarrow> int list" where
  "requested_results [] = []"
| "requested_results (Call_MATLAB nlhs nr pr name # es) = nlhs # requested_results es"
| "requested_results (e # es) = requested_results es"

definition untouched :: "user_function_data \<Rightarrow> user_function_data" where
  "untouched d =
     d\<lparr>plhs := (None, None), neval := 0,
       prhs := (case slot (prhs d) (xrhs d) of
                  Inr (Some a) \<Rightarrow> slot_update (prhs d) (xrhs d) (Some (a\<lparr>mxGetData := []\<rparr>))
                | _ \<Rightarrow> prhs d)\<rparr>"

section \<open>An engine, arrays and configurations for the examples\<close>

text \<open>
  The examples run on an engine made up for them: two enumerations of two members each,
  and a default record whose buffers hold four elements.
\<close>

datatype example_surrogate = Surrogate_A | Surrogate_B

datatype example_learning = Learning_A | Learning_B

definition example_default :: "(example_surrogate, example_learning) bopt_params" where
  "example_default =
     \<lparr>n_iterations = 300, n_inner_iterations = 500, n_init_samples = 30, verbose_level = 1,
      log_filename = ''example.log'', surr_name = Surrogate_B, noise = 1 / 10000,
      alpha = 1, beta = 1, l_type = Learning_A,
      kernel = \<lparr>kernel_name = ''kernel_one'', theta = [1, 0, 0, 0], s_theta = [100, 0, 0, 0],
                n_theta = 1\<rparr>,
      mean = \<lparr>mean_name = ''mean_one'', mu = [1, 0, 0, 0], s_mu = [1000, 0, 0, 0], n_mu = 1\<rparr>,
      crit_name = ''criterion_one''\<rparr>"

definition example_engine :: "(example_surrogate, example_learning) engine" where
  "example_engine =
     \<lparr>initialize_parameters_to_default = example_default,
      surrogate2str = (\<lambda>s. case s of Surrogate_A \<Rightarrow> ''SURROGATE_A'' | Surrogate_B \<Rightarrow> ''SURROGATE_B''),
      str2surrogate = (\<lambda>t. if t = ''SURROGATE_A'' then Surrogate_A else Surrogate_B),
      learn2str = (\<lambda>l. case l of Learning_A \<Rightarrow> ''LEARNING_A'' | Learning_B \<Rightarrow> ''LEARNING_B''),
      str2learn = (\<lambda>t. if t = ''LEARNING_A'' then Learning_A else Learning_B)\<rparr>"

definition double_matrix :: "64 word \<Rightarrow> 64 word \<Rightarrow> real list \<Rightarrow> mxArray" where
  "double_matrix m n xs =
     \<lparr>mxGetClassID = mxDOUBLE_CLASS, mxIsComplex = False, mxGetM = m, mxGetN = n,
      mxGetData = xs, mxArrayToString = []\<rparr>"

definition char_array :: "string \<Rightarrow> mxArray" where
  "char_array txt =
     \<lparr>mxGetClassID = mxCHAR_CLASS, mxIsComplex = False, mxGetM = 1, mxGetN = of_nat (length txt),
      mxGetData = map (\<lambda>c. of_nat (of_char c)) txt, mxArrayToString = txt\<rparr>"

definition config_unknown_field :: config where
  "config_unknown_field = [''n_iter'' \<mapsto> double_matrix 1 1 [50]]"

definition config_strings :: config where
  "config_strings =
     [''log_filename'' \<mapsto> char_array ''run.log'', ''kernel_name'' \<mapsto> char_array ''kernel_two'',
      ''mean_name'' \<mapsto> char_array ''mean_two'', ''crit_name'' \<mapsto> char_array ''criterion_two'',
      ''surr_name'' \<mapsto> char_array ''SURROGATE_A'', ''l_type'' \<mapsto> char_array ''LEARNING_B'']"

definition config_unequal :: config where
  "config_unequal =
     [''n_iterations'' \<mapsto> double_matrix 1 1 [50],
      ''theta'' \<mapsto> double_matrix 1 2 [1, 2],
      ''s_theta'' \<mapsto> double_matrix 1 3 [1, 1, 1]]"

definition config_theta_only :: config where
  "config_theta_only = [''theta'' \<mapsto> double_matrix 1 2 [1, 2]]"

definition config_mu_only :: config where
  "config_mu_only = [''mu'' \<mapsto> double_matrix 3 1 [1, 2, 3]]"


definition config_negative_count :: config where
  "config_negative_count = [''n_iterations'' \<mapsto> double_matrix 1 1 [- 1]]"

definition config_fractional_count :: config where
  "config_fractional_count = [''n_iterations'' \<mapsto> double_matrix 1 1 [5 / 2]]"

definition config_huge_count :: config where
  "config_huge_count = [''n_iterations'' \<mapsto> double_matrix 1 1 [100000000000000000000]]"

definition config_huge_negative_count :: config where
  "config_huge_negative_count = [''n_iterations'' \<mapsto> double_matrix 1 1 [- 10000000000000000000]]"

text \<open>
  A callback state whose first argument is a buffer for a point of three coordinates, the
  state once the point \<open>(1, 2, 3)\<close> is stored, and three host functions: one returns
  the value 4.2; one returns 4.2 and, asked for two results, a gradient of two elements;
  one returns 4.2 and a gradient of three.
\<close>

definition example_data :: user_function_data where
  "example_data =
     \<lparr>f_name = ''objective'', plhs = (None, None),
      prhs = (Some (double_matrix 1 3 [0, 0, 0]), None),
      xrhs = 0, nrhs = 1, verbose = 0, neval = 7\<rparr>"

definition host_scalar :: host where
  "host_scalar nlhs pl nr pr name = (0, (Some (double_matrix 1 1 [42 / 10]), snd pl))"

definition host_short_gradient :: host where
  "host_short_gradient nlhs pl nr pr name =
     (0, (Some (double_matrix 1 1 [42 / 10]),
          if nlhs = 2 then Some (double_matrix 1 2 [1, 2]) else snd pl))"

definition host_gradient :: host where
  "host_gradient nlhs pl nr pr name =
     (0, (Some (double_matrix 1 1 [42 / 10]),
          if nlhs = 2 then Some (double_matrix 3 1 [1, 2, 3]) else snd pl))"

definition example_point_stored :: user_function_data where
  "example_point_stored = example_data\<lparr>prhs := (Some (double_matrix 1 3 [1, 2, 3]), None)\<rparr>"

section \<open>Facts about the accessors\<close>

lemma and_then_Inl [simp]: "and_then (Inl e) k = Inl e"
  by (simp add: and_then_def)

lemma and_then_Inr [simp]: "and_then (Inr v) k = k v"
  by (simp add: and_then_def)

lemma and_then_eq_Inr: "and_then r k = Inr y \<longleftrightarrow> (\<exists>v. r = Inr v \<and> k v = Inr y)"
  by (cases r) simp_all

lemma and_then_eq_Inl:
  "and_then r k = Inl e \<longleftrightarrow> r = Inl e \<or> (\<exists>v. r = Inr v \<and> k v = Inl e)"
  by (cases r) auto

lemma mxGetField_0 [simp]: "mxGetField s 0 name = s name"
  by (simp add: mxGetField_def)

lemma struct_size_absent:
  "s name = None \<Longrightarrow> struct_size s name r out = Inr (r, out @ [Field_not_found name])"
  by (simp add: struct_size_def)

lemma struct_value_absent:
  "s name = None \<Longrightarrow> struct_value s name r out = Inr (r, out @ [Field_not_found name])"
  by (simp add: struct_value_def)

lemma struct_array_absent:
  "s name = None \<Longrightarrow> struct_array s name n r out = Inr (n, r, out @ [Field_not_found name])"
  by (simp add: struct_array_def)

lemma struct_string_absent:
  "s name = None \<Longrightarrow> struct_string s name r out = Inr (r, out @ [Field_not_found name])"
  by (simp add: struct_string_def)

lemma struct_string_result: "struct_string s name r out = Inr (t, out') \<Longrightarrow> t = r"
  by (auto simp: struct_string_def Let_def split: option.splits if_splits)

lemma copied_elements: "unat ((c::64 word) * sizeof_double) div 8 = unat c mod 2 ^ 61"
proof -
  have e: "(2::nat) ^ 64 = 2 ^ 61 * 8" by simp
  have "unat (c * 8) = (unat c * 8) mod 2 ^ 64"
    by (simp add: unat_word_ariths)
  also have "\<dots> = (unat c mod 2 ^ 61) * 8"
    unfolding e by (rule mult_mod_left[symmetric])
  finally show ?thesis by (simp add: sizeof_double_def)
qed

lemma mxIsDouble_numeric: "mxIsDouble a \<Longrightarrow> mxIsNumeric a"
  by (simp add: mxIsDouble_def mxIsNumeric_def)

lemma struct_size_accepted:
  "(case s name of None \<Rightarrow> True | Some val \<Rightarrow> real_scalar val) \<Longrightarrow>
   struct_size s name r out =
     Inr (case s name of None \<Rightarrow> r | Some val \<Rightarrow> size_t_of_double (hd (mxGetData val)),
          case s name of None \<Rightarrow> out @ [Field_not_found name] | Some val \<Rightarrow> out)"
  by (auto simp: struct_size_def real_scalar_def mxGetScalar_def length_Suc_conv
      split: option.splits list.splits)

lemma struct_value_accepted:
  "(case s name of None \<Rightarrow> True | Some val \<Rightarrow> real_scalar val) \<Longrightarrow>
   struct_value s name r out =
     Inr (case s name of None \<Rightarrow> r | Some val \<Rightarrow> hd (mxGetData val),
          case s name of None \<Rightarrow> out @ [Field_not_found name] | Some val \<Rightarrow> out)"
  by (auto simp: struct_value_def real_scalar_def mxGetScalar_def length_Suc_conv
      split: option.splits list.splits)

lemma memcpy_past_end_fits:
  "unat c \<le> length dest \<Longrightarrow> unat c \<le> length src \<Longrightarrow>
   memcpy_past_end dest src (c * sizeof_double)
     = Inr (take (unat c mod 2 ^ 61) src @ drop (unat c mod 2 ^ 61) dest)"
proof -
  assume d: "unat c \<le> length dest" and s: "unat c \<le> length src"
  have "unat c mod 2 ^ 61 \<le> length dest" "unat c mod 2 ^ 61 \<le> length src"
    using d s by (meson mod_less_eq_dividend order_trans)+
  then show ?thesis
    by (simp add: memcpy_past_end_def copied_elements Let_def)
qed


lemma struct_array_present:
  "s name = Some val \<Longrightarrow> real_array val \<Longrightarrow> unat (mxGetNumberOfElements val) \<le> length buf \<Longrightarrow>
   struct_array s name n buf out =
     Inr (mxGetNumberOfElements val,
          take (unat (mxGetNumberOfElements val) mod 2 ^ 61) (mxGetData val)
            @ drop (unat (mxGetNumberOfElements val) mod 2 ^ 61) buf,
          out)"
  by (simp add: struct_array_def real_array_def mxIsDouble_numeric mxGetPr_def
      mxGetNumberOfElements_def Let_def memcpy_past_end_fits)

lemma struct_array_accepted:
  "array_accepted s name buf \<Longrightarrow>
   struct_array s name n buf out =
     Inr (count_after s name n,
          case s name of
            None \<Rightarrow> buf
          | Some val \<Rightarrow> take (unat (mxGetNumberOfElements val) mod 2 ^ 61) (mxGetData val)
                           @ drop (unat (mxGetNumberOfElements val) mod 2 ^ 61) buf,
          case s name of None \<Rightarrow> out @ [Field_not_found name] | Some val \<Rightarrow> out)"
  by (auto simp: array_accepted_def count_after_def struct_array_absent struct_array_present
      split: option.splits)







lemma kernel_check_fails:
  assumes sc: "scalars_accepted params"
    and th: "array_accepted params ''theta'' (theta (kernel (initialize_parameters_to_default eng)))"
    and sth: "array_accepted params ''s_theta'' (s_theta (kernel (initialize_parameters_to_default eng)))"
    and ne: "count_after params ''theta'' (n_theta (kernel (initialize_parameters_to_default eng)))
             \<noteq> count_after params ''s_theta'' (n_theta (kernel (initialize_parameters_to_default eng)))"
  shows "load_parameters eng params = Inl (mexErrMsgTxt ''Error processing kernel parameters'')"
  using assms
  by (simp add: load_parameters_def Let_def scalars_accepted_def scalar_fields_def
      struct_size_accepted struct_value_accepted struct_array_accepted)

lemma mean_check_fails:
  assumes sc: "scalars_accepted params"
    and th: "array_accepted params ''theta'' (theta (kernel (initialize_parameters_to_default eng)))"
    and sth: "array_accepted params ''s_theta'' (s_theta (kernel (initialize_parameters_to_default eng)))"
    and eq: "count_after params ''theta'' (n_theta (kernel (initialize_parameters_to_default eng)))
             = count_after params ''s_theta'' (n_theta (kernel (initialize_parameters_to_default eng)))"
    and m: "array_accepted params ''mu'' (mu (mean (initialize_parameters_to_default eng)))"
    and sm: "array_accepted params ''s_mu'' (s_mu (mean (initialize_parameters_to_default eng)))"
    and ne: "count_after params ''mu'' (n_mu (mean (initialize_parameters_to_default eng)))
             \<noteq> count_after params ''s_mu'' (n_mu (mean (initialize_parameters_to_default eng)))"
  shows "load_parameters eng params = Inl (mexErrMsgTxt ''Error processing mean parameters'')"
  using assms
  by (simp add: load_parameters_def Let_def scalars_accepted_def scalar_fields_def
      struct_size_accepted struct_value_accepted struct_array_accepted)


lemma size_t_of_double_in_range:
  assumes "- (2 ^ 63) < v" "v < 2 ^ 64"
  shows "uint (size_t_of_double v) = towards_zero v mod 2 ^ 64"
proof -
  have e: "size_t_of_double v = word_of_int (towards_zero v)"
    using assms by (simp add: size_t_of_double_def)
  have "uint (word_of_int (towards_zero v) :: 64 word) = towards_zero v mod 2 ^ LENGTH(64)"
    by (rule uint_word_of_int)
  then show ?thesis
    unfolding e by simp
qed

section \<open>Facts about the callback\<close>

lemma store_point_frame:
  assumes "store_point n x d = Inr d1"
  shows "neval d1 = neval d" "f_name d1 = f_name d" "xrhs d1 = xrhs d" "nrhs d1 = nrhs d"
    "verbose d1 = verbose d" "plhs d1 = (None, None)"
  using assms
  by (auto simp: store_point_def Let_def and_then_eq_Inr)

lemma store_point_untouched:
  assumes "store_point n x d = Inr d1"
  shows "untouched d1 = untouched d"
  using assms
  by (auto simp: store_point_def Let_def and_then_eq_Inr untouched_def slot_def slot_update_def
      deref_def split: if_splits option.splits)

lemma untouched_plhs_neval [simp]:
  "untouched (d\<lparr>plhs := p\<rparr>) = untouched d" "untouched (d\<lparr>neval := k\<rparr>) = untouched d"
  by (simp_all add: untouched_def split: sum.splits option.splits)

lemma copied_coordinates: "unat ((ucast (n::32 word) :: 64 word) * sizeof_double) div 8 = unat n"
proof -
  have "unat n < 2 ^ 32"
    using unsigned_less [of n, where 'a = nat] by simp
  then have b: "unat n < 2 ^ 61" by simp
  from b have "unat n < 2 ^ 64" by simp
  then have "unat (ucast n :: 64 word) = unat n"
    by (simp add: unsigned_ucast_eq take_bit_nat_eq_self_iff)
  with b show ?thesis
    by (simp add: copied_elements)
qed

lemma example_store_point: "store_point 3 [1, 2, 3] example_data = Inr example_point_stored"
  by (simp add: store_point_def example_data_def example_point_stored_def Let_def slot_def
      slot_update_def deref_def mxGetPr_def mxIsDouble_def double_matrix_def memcpy_def
      sizeof_double_def)

lemma example_run_scalar:
  "user_function host_scalar 3 [1, 2, 3] None example_data
     = \<lparr>returned = Inr (42 / 10),
        d_after = example_point_stored
                    \<lparr>plhs := (Some (double_matrix 1 1 [42 / 10]), None), neval := 8\<rparr>,
        gradient_after = None,
        events = [Call_MATLAB 1 1 (Some (double_matrix 1 3 [1, 2, 3]), None) ''objective'',
                  Destroy_Array (double_matrix 1 1 [42 / 10])]\<rparr>"
  unfolding user_function_def example_store_point
  by (simp add: Let_def host_scalar_def mxGetScalar_def
      example_point_stored_def example_data_def double_matrix_def mxIsNumeric_def)

lemma example_run_short_gradient:
  "user_function host_short_gradient 3 [1, 2, 3] (Some [0, 0, 0]) example_data
     = \<lparr>returned = Inl (mexErrMsgTxt ''gradient vector from user function is the wrong size''),
        d_after = example_point_stored
                    \<lparr>plhs := (Some (double_matrix 1 1 [42 / 10]), Some (double_matrix 1 2 [1, 2]))\<rparr>,
        gradient_after = Some [0, 0, 0],
        events = [Call_MATLAB 2 1 (Some (double_matrix 1 3 [1, 2, 3]), None) ''objective'',
                  Destroy_Array (double_matrix 1 1 [42 / 10])]\<rparr>"
  unfolding user_function_def example_store_point
  by (simp add: Let_def host_short_gradient_def
      mxGetScalar_def read_gradient_def deref_def
      example_point_stored_def example_data_def double_matrix_def mxIsNumeric_def mxIsDouble_def)

lemma example_run_gradient:
  "user_function host_gradient 3 [1, 2, 3] (Some [0, 0, 0]) example_data
     = \<lparr>returned = Inr (42 / 10),
        d_after = example_point_stored
                    \<lparr>plhs := (Some (double_matrix 1 1 [42 / 10]), Some (double_matrix 3 1 [1, 2, 3])),
                      neval := 8\<rparr>,
        gradient_after = Some [1, 2, 3],
        events = [Call_MATLAB 2 1 (Some (double_matrix 1 3 [1, 2, 3]), None) ''objective'',
                  Destroy_Array (double_matrix 1 1 [42 / 10]),
                  Destroy_Array (double_matrix 3 1 [1, 2, 3])]\<rparr>"
  unfolding user_function_def example_store_point
  by (simp add: Let_def host_gradient_def
      mxGetScalar_def read_gradient_def deref_def mxGetPr_def memcpy_def sizeof_double_def
      example_point_stored_def example_data_def double_matrix_def mxIsNumeric_def mxIsDouble_def)

section \<open>Loading with nothing supplied\<close>

text \<open>
  C1. When the configuration has none of the seventeen fields \<^verbatim>\<open>load_parameters\<close> looks
  up, the record it returns is the engine's default record, field for field, and its
  whole output is the seventeen \<open>Field ... not found\<close> lines in the order of the
  lookups. The two enumeration
  fields are written back from their names on every call, so the statement takes of the
  engine, whose code is not in this header, that the default surrogate and learning
  types come back from their own names, and that the names fit the 100-character
  buffers they are copied into.
\<close>

theorem load_parameters_all_absent:
  assumes absent: "\<forall>name \<in> set optional_fields. params name = None"
    and s_fits: "length (surrogate2str eng (surr_name (initialize_parameters_to_default eng))) < 100"
    and l_fits: "length (learn2str eng (l_type (initialize_parameters_to_default eng))) < 100"
    and s_round: "str2surrogate eng (surrogate2str eng (surr_name (initialize_parameters_to_default eng)))
                   = surr_name (initialize_parameters_to_default eng)"
    and l_round: "str2learn eng (learn2str eng (l_type (initialize_parameters_to_default eng)))
                   = l_type (initialize_parameters_to_default eng)"
  shows "load_parameters eng params
           = Inr (initialize_parameters_to_default eng, map Field_not_found optional_fields)"
  using assms
  by (simp add: load_parameters_def optional_fields_def Let_def strcpy_def
      struct_size_absent struct_value_absent struct_array_absent struct_string_absent)

theorem load_parameters_all_absent_witness:
  "list_all (\<lambda>name. config_unknown_field name = None) optional_fields
   \<and> str2surrogate example_engine (surrogate2str example_engine (surr_name example_default))
       = surr_name example_default
   \<and> str2learn example_engine (learn2str example_engine (l_type example_default))
       = l_type example_default
   \<and> load_parameters example_engine config_unknown_field
       = Inr (example_default, map Field_not_found optional_fields)"
proof -
  have a: "\<forall>name \<in> set optional_fields. config_unknown_field name = None"
    by (simp add: optional_fields_def config_unknown_field_def)
  have d: "initialize_parameters_to_default example_engine = example_default"
    by (simp add: example_engine_def)
  have sf: "length (surrogate2str example_engine
                      (surr_name (initialize_parameters_to_default example_engine))) < 100"
    by (simp add: example_engine_def example_default_def)
  have lf: "length (learn2str example_engine
                      (l_type (initialize_parameters_to_default example_engine))) < 100"
    by (simp add: example_engine_def example_default_def)
  have sr: "str2surrogate example_engine
              (surrogate2str example_engine (surr_name (initialize_parameters_to_default example_engine)))
              = surr_name (initialize_parameters_to_default example_engine)"
    by (simp add: example_engine_def example_default_def)
  have lr: "str2learn example_engine
              (learn2str example_engine (l_type (initialize_parameters_to_default example_engine)))
              = l_type (initialize_parameters_to_default example_engine)"
    by (simp add: example_engine_def example_default_def)
  show ?thesis
    using a sr lr load_parameters_all_absent [OF a sf lf sr lr]
    by (simp add: d list_all_iff)
qed

section \<open>The string fields\<close>

text \<open>
  C3. The claim is that a string field that is present and is text changes the record.
  The code does not do that: \<^verbatim>\<open>struct_string\<close> assigns the extracted text to its own
  copy of the pointer, so whatever \<^verbatim>\<open>load_parameters\<close> returns has the log file name,
  the kernel name, the mean name and the criterion name of the default record, and the
  surrogate and learning types read back from the default's own names, whatever the
  configuration holds under the six names.
\<close>

theorem load_parameters_strings:
  assumes "load_parameters eng params = Inr (p, out)"
  shows "log_filename p = log_filename (initialize_parameters_to_default eng)
       \<and> kernel_name (kernel p) = kernel_name (kernel (initialize_parameters_to_default eng))
       \<and> mean_name (mean p) = mean_name (mean (initialize_parameters_to_default eng))
       \<and> crit_name p = crit_name (initialize_parameters_to_default eng)
       \<and> surr_name p = str2surrogate eng (surrogate2str eng
                          (surr_name (initialize_parameters_to_default eng)))
       \<and> l_type p = str2learn eng (learn2str eng
                          (l_type (initialize_parameters_to_default eng)))"
  using assms
  by (auto simp: load_parameters_def Let_def and_then_eq_Inr strcpy_def
      split: if_splits dest!: struct_string_result)

theorem load_parameters_strings_witness:
  "config_strings ''kernel_name'' = Some (char_array ''kernel_two'')
   \<and> config_strings ''surr_name'' = Some (char_array ''SURROGATE_A'')
   \<and> load_parameters example_engine config_strings
       = Inr (example_default, map Field_not_found
           [''n_iterations'', ''n_inner_iterations'', ''n_init_iterations'', ''verbose_level'',
            ''alpha'', ''beta'', ''noise'', ''theta'', ''s_theta'', ''mu'', ''s_mu''])
   \<and> kernel_name (kernel example_default) = ''kernel_one''
   \<and> surr_name example_default = Surrogate_B"
proof -
  have run: "load_parameters example_engine config_strings
       = Inr (example_default, map Field_not_found
           [''n_iterations'', ''n_inner_iterations'', ''n_init_iterations'', ''verbose_level'',
            ''alpha'', ''beta'', ''noise'', ''theta'', ''s_theta'', ''mu'', ''s_mu''])"
    by (simp add: load_parameters_def Let_def strcpy_def struct_size_def struct_value_def
        struct_array_def struct_string_def config_strings_def example_engine_def
        example_default_def char_array_def mxIsChar_def)
  show ?thesis
    using run load_parameters_strings [OF run]
    by (simp add: config_strings_def example_default_def)
qed

section \<open>Arrays longer than their buffer\<close>




section \<open>The two length checks\<close>

text \<open>
  C5. When \<open>theta\<close> and \<open>s_theta\<close> are both supplied, as arrays of doubles that fit
  their buffers, and their element counts differ, \<^verbatim>\<open>load_parameters\<close> ends in
  \<^verbatim>\<open>mexErrMsgTxt("Error processing kernel parameters")\<close> (the spec's ValidationError):
  the result is the error, and no record, partly filled or not, is returned. The scalar
  fields before them are taken to be absent or well-formed, since a malformed one ends
  the call earlier with its own message.
\<close>

theorem unequal_theta_lengths_fail:
  assumes "scalars_accepted params"
    and "params ''theta'' = Some th" "real_array th"
    and "length (mxGetData th) \<le> length (theta (kernel (initialize_parameters_to_default eng)))"
    and "params ''s_theta'' = Some sth" "real_array sth"
    and "length (mxGetData sth) \<le> length (s_theta (kernel (initialize_parameters_to_default eng)))"
    and "length (mxGetData th) \<noteq> length (mxGetData sth)"
  shows "load_parameters eng params = Inl (mexErrMsgTxt ''Error processing kernel parameters'')"
proof (rule kernel_check_fails)
  show "scalars_accepted params" by fact
  show "array_accepted params ''theta'' (theta (kernel (initialize_parameters_to_default eng)))"
    using assms by (simp add: array_accepted_def real_array_def mxGetNumberOfElements_def)
  show "array_accepted params ''s_theta'' (s_theta (kernel (initialize_parameters_to_default eng)))"
    using assms by (simp add: array_accepted_def real_array_def mxGetNumberOfElements_def)
  show "count_after params ''theta'' (n_theta (kernel (initialize_parameters_to_default eng)))
          \<noteq> count_after params ''s_theta'' (n_theta (kernel (initialize_parameters_to_default eng)))"
    using assms by (auto simp: count_after_def real_array_def mxGetNumberOfElements_def)
qed

theorem unequal_theta_lengths_fail_witness:
  "scalars_accepted config_unequal
   \<and> config_unequal ''theta'' = Some (double_matrix 1 2 [1, 2])
   \<and> config_unequal ''s_theta'' = Some (double_matrix 1 3 [1, 1, 1])
   \<and> real_array (double_matrix 1 2 [1, 2]) \<and> real_array (double_matrix 1 3 [1, 1, 1])
   \<and> load_parameters example_engine config_unequal
       = Inl (mexErrMsgTxt ''Error processing kernel parameters'')"
proof -
  have d: "initialize_parameters_to_default example_engine = example_default"
    by (simp add: example_engine_def)
  have a: "scalars_accepted config_unequal"
    by (simp add: scalars_accepted_def scalar_fields_def config_unequal_def real_scalar_def
        double_matrix_def mxIsNumeric_def)
  have b: "config_unequal ''theta'' = Some (double_matrix 1 2 [1, 2])"
    by (simp add: config_unequal_def)
  have c: "real_array (double_matrix 1 2 [1, 2])"
    by (simp add: real_array_def double_matrix_def mxIsDouble_def)
  have e: "length (mxGetData (double_matrix 1 2 [1, 2]))
             \<le> length (theta (kernel (initialize_parameters_to_default example_engine)))"
    by (simp add: d example_default_def double_matrix_def)
  have f: "config_unequal ''s_theta'' = Some (double_matrix 1 3 [1, 1, 1])"
    by (simp add: config_unequal_def)
  have g: "real_array (double_matrix 1 3 [1, 1, 1])"
    by (simp add: real_array_def double_matrix_def mxIsDouble_def)
  have h: "length (mxGetData (double_matrix 1 3 [1, 1, 1]))
             \<le> length (s_theta (kernel (initialize_parameters_to_default example_engine)))"
    by (simp add: d example_default_def double_matrix_def)
  have i: "length (mxGetData (double_matrix 1 2 [1, 2]))
             \<noteq> length (mxGetData (double_matrix 1 3 [1, 1, 1]))"
    by (simp add: double_matrix_def)
  show ?thesis
    using a b c f g unequal_theta_lengths_fail
            [where params = config_unequal and eng = example_engine, OF a b c e f g h i]
    by simp
qed

text \<open>
  C8. Supplying \<open>theta\<close> alone is fatal when its element count is not the default
  \<open>n_theta\<close>: the count of \<open>theta\<close> goes into the record, the local \<open>n_theta\<close>
  keeps the default it was given before the extraction, and the check compares the two.
  The same holds for \<open>mu\<close> alone and \<open>n_mu\<close>, once the kernel check has passed.
\<close>

theorem lone_array_length_check:
  assumes sc: "scalars_accepted params"
  shows "(params ''theta'' = Some th \<and> real_array th
            \<and> length (mxGetData th) \<le> length (theta (kernel (initialize_parameters_to_default eng)))
            \<and> mxGetNumberOfElements th \<noteq> n_theta (kernel (initialize_parameters_to_default eng))
            \<and> params ''s_theta'' = None
          \<longrightarrow> load_parameters eng params = Inl (mexErrMsgTxt ''Error processing kernel parameters''))
       \<and> (array_accepted params ''theta'' (theta (kernel (initialize_parameters_to_default eng)))
            \<and> array_accepted params ''s_theta'' (s_theta (kernel (initialize_parameters_to_default eng)))
            \<and> count_after params ''theta'' (n_theta (kernel (initialize_parameters_to_default eng)))
                = count_after params ''s_theta'' (n_theta (kernel (initialize_parameters_to_default eng)))
            \<and> params ''mu'' = Some m \<and> real_array m
            \<and> length (mxGetData m) \<le> length (mu (mean (initialize_parameters_to_default eng)))
            \<and> mxGetNumberOfElements m \<noteq> n_mu (mean (initialize_parameters_to_default eng))
            \<and> params ''s_mu'' = None
          \<longrightarrow> load_parameters eng params = Inl (mexErrMsgTxt ''Error processing mean parameters''))"
proof (intro conjI impI)
  assume h: "params ''theta'' = Some th \<and> real_array th
            \<and> length (mxGetData th) \<le> length (theta (kernel (initialize_parameters_to_default eng)))
            \<and> mxGetNumberOfElements th \<noteq> n_theta (kernel (initialize_parameters_to_default eng))
            \<and> params ''s_theta'' = None"
  show "load_parameters eng params = Inl (mexErrMsgTxt ''Error processing kernel parameters'')"
  proof (rule kernel_check_fails [OF sc])
    show "array_accepted params ''theta'' (theta (kernel (initialize_parameters_to_default eng)))"
      using h by (simp add: array_accepted_def real_array_def mxGetNumberOfElements_def)
    show "array_accepted params ''s_theta'' (s_theta (kernel (initialize_parameters_to_default eng)))"
      using h by (simp add: array_accepted_def)
    show "count_after params ''theta'' (n_theta (kernel (initialize_parameters_to_default eng)))
          \<noteq> count_after params ''s_theta'' (n_theta (kernel (initialize_parameters_to_default eng)))"
      using h by (simp add: count_after_def)
  qed
next
  assume h: "array_accepted params ''theta'' (theta (kernel (initialize_parameters_to_default eng)))
            \<and> array_accepted params ''s_theta'' (s_theta (kernel (initialize_parameters_to_default eng)))
            \<and> count_after params ''theta'' (n_theta (kernel (initialize_parameters_to_default eng)))
                = count_after params ''s_theta'' (n_theta (kernel (initialize_parameters_to_default eng)))
            \<and> params ''mu'' = Some m \<and> real_array m
            \<and> length (mxGetData m) \<le> length (mu (mean (initialize_parameters_to_default eng)))
            \<and> mxGetNumberOfElements m \<noteq> n_mu (mean (initialize_parameters_to_default eng))
            \<and> params ''s_mu'' = None"
  show "load_parameters eng params = Inl (mexErrMsgTxt ''Error processing mean parameters'')"
  proof (rule mean_check_fails [OF sc])
    show "array_accepted params ''theta'' (theta (kernel (initialize_parameters_to_default eng)))"
      using h by simp
    show "array_accepted params ''s_theta'' (s_theta (kernel (initialize_parameters_to_default eng)))"
      using h by simp
    show "count_after params ''theta'' (n_theta (kernel (initialize_parameters_to_default eng)))
            = count_after params ''s_theta'' (n_theta (kernel (initialize_parameters_to_default eng)))"
      using h by simp
    show "array_accepted params ''mu'' (mu (mean (initialize_parameters_to_default eng)))"
      using h by (simp add: array_accepted_def real_array_def mxGetNumberOfElements_def)
    show "array_accepted params ''s_mu'' (s_mu (mean (initialize_parameters_to_default eng)))"
      using h by (simp add: array_accepted_def)
    show "count_after params ''mu'' (n_mu (mean (initialize_parameters_to_default eng)))
          \<noteq> count_after params ''s_mu'' (n_mu (mean (initialize_parameters_to_default eng)))"
      using h by (simp add: count_after_def)
  qed
qed

theorem lone_array_length_check_witness:
  "scalars_accepted config_theta_only
   \<and> config_theta_only ''theta'' = Some (double_matrix 1 2 [1, 2])
   \<and> config_theta_only ''s_theta'' = None
   \<and> n_theta (kernel example_default) = 1
   \<and> load_parameters example_engine config_theta_only
       = Inl (mexErrMsgTxt ''Error processing kernel parameters'')
   \<and> scalars_accepted config_mu_only
   \<and> config_mu_only ''mu'' = Some (double_matrix 3 1 [1, 2, 3])
   \<and> config_mu_only ''s_mu'' = None
   \<and> n_mu (mean example_default) = 1
   \<and> load_parameters example_engine config_mu_only
       = Inl (mexErrMsgTxt ''Error processing mean parameters'')"
proof -
  have d: "initialize_parameters_to_default example_engine = example_default"
    by (simp add: example_engine_def)
  have a: "scalars_accepted config_theta_only"
    by (simp add: scalars_accepted_def scalar_fields_def config_theta_only_def)
  have b: "config_theta_only ''theta'' = Some (double_matrix 1 2 [1, 2])
            \<and> real_array (double_matrix 1 2 [1, 2])
            \<and> length (mxGetData (double_matrix 1 2 [1, 2]))
                 \<le> length (theta (kernel (initialize_parameters_to_default example_engine)))
            \<and> mxGetNumberOfElements (double_matrix 1 2 [1, 2])
                 \<noteq> n_theta (kernel (initialize_parameters_to_default example_engine))
            \<and> config_theta_only ''s_theta'' = None"
    by (simp add: d config_theta_only_def real_array_def double_matrix_def mxIsDouble_def
        example_default_def mxGetNumberOfElements_def)
  have k: "load_parameters example_engine config_theta_only
             = Inl (mexErrMsgTxt ''Error processing kernel parameters'')"
    using lone_array_length_check
            [where params = config_theta_only and eng = example_engine
               and th = "double_matrix 1 2 [1, 2]", OF a] b
    by blast
  have a': "scalars_accepted config_mu_only"
    by (simp add: scalars_accepted_def scalar_fields_def config_mu_only_def)
  have b': "array_accepted config_mu_only ''theta''
              (theta (kernel (initialize_parameters_to_default example_engine)))
            \<and> array_accepted config_mu_only ''s_theta''
              (s_theta (kernel (initialize_parameters_to_default example_engine)))
            \<and> count_after config_mu_only ''theta''
                 (n_theta (kernel (initialize_parameters_to_default example_engine)))
                = count_after config_mu_only ''s_theta''
                 (n_theta (kernel (initialize_parameters_to_default example_engine)))
            \<and> config_mu_only ''mu'' = Some (double_matrix 3 1 [1, 2, 3])
            \<and> real_array (double_matrix 3 1 [1, 2, 3])
            \<and> length (mxGetData (double_matrix 3 1 [1, 2, 3]))
                 \<le> length (mu (mean (initialize_parameters_to_default example_engine)))
            \<and> mxGetNumberOfElements (double_matrix 3 1 [1, 2, 3])
                 \<noteq> n_mu (mean (initialize_parameters_to_default example_engine))
            \<and> config_mu_only ''s_mu'' = None"
    by (simp add: d config_mu_only_def real_array_def double_matrix_def mxIsDouble_def
        example_default_def mxGetNumberOfElements_def array_accepted_def count_after_def)
  have m: "load_parameters example_engine config_mu_only
             = Inl (mexErrMsgTxt ''Error processing mean parameters'')"
    using lone_array_length_check
            [where params = config_mu_only and eng = example_engine
               and m = "double_matrix 3 1 [1, 2, 3]", OF a'] b'
    by blast
  show ?thesis
    using a a' k m
    by (simp add: config_theta_only_def config_mu_only_def example_default_def)
qed

section \<open>Counts\<close>

text \<open>
  C10. For a field that is a real numeric scalar \<open>v\<close>, \<^verbatim>\<open>struct_size\<close> stores
  \<^verbatim>\<open>(size_t) v\<close> and raises nothing, whatever \<open>v\<close> is: no test for a negative, a
  fractional or an overlarge value comes before the cast. For \<open>v\<close> between
  \<open>- 2 ^ 63\<close> and \<open>2 ^ 64\<close> the stored count is \<open>v\<close> with its fraction dropped,
  modulo \<open>2 ^ 64\<close>; so \<open>5/2\<close> is stored as 2 and \<open>- 1\<close> as \<open>2 ^ 64 - 1\<close>.
  The witness also has a value on either side of that range, each accepted without error.
\<close>

theorem struct_size_unchecked_cast:
  assumes "s name = Some val" "mxIsNumeric val" "\<not> mxIsComplex val"
    and "mxGetM val * mxGetN val = 1" "mxGetData val = [v]"
  shows "struct_size s name result out = Inr (size_t_of_double v, out)
       \<and> (- (2 ^ 63) < v \<and> v < 2 ^ 64
           \<longrightarrow> uint (size_t_of_double v) = (if 0 \<le> v then \<lfloor>v\<rfloor> else - \<lfloor>- v\<rfloor>) mod 2 ^ 64)"
proof (intro conjI impI)
  show "struct_size s name result out = Inr (size_t_of_double v, out)"
    using assms by (simp add: struct_size_def mxGetScalar_def)
next
  assume "- (2 ^ 63) < v \<and> v < 2 ^ 64"
  then show "uint (size_t_of_double v) = (if 0 \<le> v then \<lfloor>v\<rfloor> else - \<lfloor>- v\<rfloor>) mod 2 ^ 64"
    using size_t_of_double_in_range [of v] by (simp add: towards_zero_def)
qed

theorem struct_size_unchecked_cast_witness:
  "config_negative_count ''n_iterations'' = Some (double_matrix 1 1 [- 1])
   \<and> struct_size config_negative_count ''n_iterations'' 300 []
       = Inr (18446744073709551615, [])
   \<and> config_fractional_count ''n_iterations'' = Some (double_matrix 1 1 [5 / 2])
   \<and> struct_size config_fractional_count ''n_iterations'' 300 [] = Inr (2, [])
   \<and> config_huge_count ''n_iterations'' = Some (double_matrix 1 1 [100000000000000000000])
   \<and> struct_size config_huge_count ''n_iterations'' 300 [] = Inr (0, [])
   \<and> config_huge_negative_count ''n_iterations''
       = Some (double_matrix 1 1 [- 10000000000000000000])
   \<and> struct_size config_huge_negative_count ''n_iterations'' 300 []
       = Inr (9223372036854775808, [])"
proof -
  have a: "config_negative_count ''n_iterations'' = Some (double_matrix 1 1 [- 1])"
    by (simp add: config_negative_count_def)
  have b: "config_fractional_count ''n_iterations'' = Some (double_matrix 1 1 [5 / 2])"
    by (simp add: config_fractional_count_def)
  have h: "config_huge_count ''n_iterations'' = Some (double_matrix 1 1 [100000000000000000000])"
    by (simp add: config_huge_count_def)
  have g: "config_huge_negative_count ''n_iterations''
             = Some (double_matrix 1 1 [- 10000000000000000000])"
    by (simp add: config_huge_negative_count_def)
  have n: "mxIsNumeric (double_matrix 1 1 [v])" for v
    by (simp add: double_matrix_def mxIsNumeric_def)
  have c: "\<not> mxIsComplex (double_matrix 1 1 [v])" for v
    by (simp add: double_matrix_def)
  have o: "mxGetM (double_matrix 1 1 [v]) * mxGetN (double_matrix 1 1 [v]) = 1" for v
    by (simp add: double_matrix_def)
  have e: "mxGetData (double_matrix 1 1 [v]) = [v]" for v
    by (simp add: double_matrix_def)
  show ?thesis
    using a b h g
      struct_size_unchecked_cast
        [where s = config_negative_count and result = 300 and out = "[]", OF a n c o e]
      struct_size_unchecked_cast
        [where s = config_fractional_count and result = 300 and out = "[]", OF b n c o e]
      struct_size_unchecked_cast
        [where s = config_huge_count and result = 300 and out = "[]", OF h n c o e]
      struct_size_unchecked_cast
        [where s = config_huge_negative_count and result = 300 and out = "[]", OF g n c o e]
    by (simp add: size_t_of_double_def towards_zero_def)
qed

section \<open>The callback: counter, gradient, frame\<close>

text \<open>
  C4, as the code has it. The counter is incremented after the gradient step (line 166),
  and a failed gradient check leaves through \<^verbatim>\<open>mexErrMsgTxt\<close> before that line. So a
  call that returns the objective value has incremented the counter exactly once, and a
  call that ends in an error, the gradient error after the objective was read included,
  has left the counter as it was.
\<close>

theorem counter_incremented_on_return:
  "(returned (user_function host n x gradient d) = Inr v
      \<longrightarrow> neval (d_after (user_function host n x gradient d)) = neval d + 1)
   \<and> (returned (user_function host n x gradient d) = Inl e
      \<longrightarrow> neval (d_after (user_function host n x gradient d)) = neval d)"
proof (cases "store_point n x d")
  case (Inl e)
  then show ?thesis by (simp add: user_function_def)
next
  case (Inr d1)
  obtain status pl where h:
    "host (if gradient \<noteq> None then 2 else 1) (plhs d1) (nrhs d1) (prhs d1) (f_name d1) = (status, pl)"
    by (cases "host (if gradient \<noteq> None then 2 else 1) (plhs d1) (nrhs d1) (prhs d1) (f_name d1)")
  show ?thesis
    using Inr h store_point_frame(1) [OF Inr]
    by (cases gradient)
      (auto simp: user_function_def Let_def and_then_eq_Inr and_then_eq_Inl
        split: sum.splits option.splits)
qed

theorem counter_incremented_on_return_witness:
  "returned (user_function host_scalar 3 [1, 2, 3] None example_data) = Inr (42 / 10)
   \<and> neval (d_after (user_function host_scalar 3 [1, 2, 3] None example_data))
       = neval example_data + 1
   \<and> returned (user_function host_short_gradient 3 [1, 2, 3] (Some [0, 0, 0]) example_data)
       = Inl (mexErrMsgTxt ''gradient vector from user function is the wrong size'')
   \<and> neval (d_after (user_function host_short_gradient 3 [1, 2, 3] (Some [0, 0, 0]) example_data))
       = neval example_data"
proof -
  have a: "returned (user_function host_scalar 3 [1, 2, 3] None example_data) = Inr (42 / 10)"
    by (simp add: example_run_scalar)
  have b: "returned (user_function host_short_gradient 3 [1, 2, 3] (Some [0, 0, 0]) example_data)
             = Inl (mexErrMsgTxt ''gradient vector from user function is the wrong size'')"
    by (simp add: example_run_short_gradient)
  show ?thesis
    using a b
      counter_incremented_on_return
        [of host_scalar 3 "[1, 2, 3]" None example_data "42 / 10" Undefined_Behaviour]
      counter_incremented_on_return
        [of host_short_gradient 3 "[1, 2, 3]" "Some [0, 0, 0]" example_data 0
           "mexErrMsgTxt ''gradient vector from user function is the wrong size''"]
    by simp
qed

text \<open>
  The claim of C4 fails where the objective is read and the gradient has two elements
  for a point of three: the first result is read and destroyed, the call ends in the
  gradient error, and the counter is still 7.
\<close>

theorem counter_on_gradient_failure_counterexample:
  "returned (user_function host_short_gradient 3 [1, 2, 3] (Some [0, 0, 0]) example_data)
     = Inl (mexErrMsgTxt ''gradient vector from user function is the wrong size'')
   \<and> events (user_function host_short_gradient 3 [1, 2, 3] (Some [0, 0, 0]) example_data)
     = [Call_MATLAB 2 1 (Some (double_matrix 1 3 [1, 2, 3]), None) ''objective'',
        Destroy_Array (double_matrix 1 1 [42 / 10])]
   \<and> neval example_data = 7
   \<and> neval (d_after (user_function host_short_gradient 3 [1, 2, 3] (Some [0, 0, 0]) example_data)) = 7
   \<and> neval (d_after (user_function host_short_gradient 3 [1, 2, 3] (Some [0, 0, 0]) example_data))
       \<noteq> neval example_data + 1"
  unfolding example_run_short_gradient
  by (simp add: example_point_stored_def example_data_def)

text \<open>
  C6. With the gradient requested, the point stored, the host call successful and the
  first result a real scalar: if the second result is not a real numeric vector of
  exactly \<open>n\<close> elements, the call ends in
  \<^verbatim>\<open>mexErrMsgTxt("gradient vector from user function is the wrong size")\<close> (the spec's
  TypeError) and the gradient buffer is as it was; and if the call returns a value, the
  first \<open>n\<close> elements of the gradient buffer are those of the second result and
  the rest of the buffer is as it was. The witness has the gradient of two elements for
  a point of three, which fails, and one of three, which is copied.
\<close>

theorem gradient_shape_checked:
  assumes sp: "store_point n x d = Inr d1"
    and h: "host 2 (plhs d1) (nrhs d1) (prhs d1) (f_name d1) = (0, (Some r0, Some r1))"
    and r0: "real_scalar r0"
  shows "(\<not> (mxIsNumeric r1 \<and> \<not> mxIsComplex r1 \<and> (mxGetM r1 = 1 \<or> mxGetN r1 = 1)
              \<and> mxGetNumberOfElements r1 = ucast n)
           \<longrightarrow> returned (user_function host n x (Some g) d)
                 = Inl (mexErrMsgTxt ''gradient vector from user function is the wrong size'')
               \<and> gradient_after (user_function host n x (Some g) d) = Some g)
       \<and> (returned (user_function host n x (Some g) d) = Inr v
           \<longrightarrow> unat n \<le> length g \<and> unat n \<le> length (mxGetData r1)
               \<and> gradient_after (user_function host n x (Some g) d)
                   = Some (take (unat n) (mxGetData r1) @ drop (unat n) g))"
proof -
  obtain f where f: "mxGetScalar r0 = Inr f"
    using r0 by (auto simp: real_scalar_def mxGetScalar_def length_Suc_conv split: list.splits)
  have ok: "mxIsNumeric r0 \<and> \<not> mxIsComplex r0 \<and> mxGetM r0 * mxGetN r0 = 1"
    using r0 by (simp add: real_scalar_def)
  show ?thesis
    using sp h f ok
    by (auto simp: user_function_def read_gradient_def deref_def mxGetPr_def memcpy_def Let_def
        copied_coordinates mxGetNumberOfElements_def mxIsDouble_numeric
        and_then_eq_Inr split: sum.splits if_splits)
qed

theorem gradient_shape_checked_witness:
  "store_point 3 [1, 2, 3] example_data = Inr example_point_stored
   \<and> host_short_gradient 2 (plhs example_point_stored) (nrhs example_point_stored)
        (prhs example_point_stored) (f_name example_point_stored)
       = (0, (Some (double_matrix 1 1 [42 / 10]), Some (double_matrix 1 2 [1, 2])))
   \<and> real_scalar (double_matrix 1 1 [42 / 10])
   \<and> mxGetNumberOfElements (double_matrix 1 2 [1, 2]) = 2
   \<and> returned (user_function host_short_gradient 3 [1, 2, 3] (Some [0, 0, 0]) example_data)
       = Inl (mexErrMsgTxt ''gradient vector from user function is the wrong size'')
   \<and> host_gradient 2 (plhs example_point_stored) (nrhs example_point_stored)
        (prhs example_point_stored) (f_name example_point_stored)
       = (0, (Some (double_matrix 1 1 [42 / 10]), Some (double_matrix 3 1 [1, 2, 3])))
   \<and> returned (user_function host_gradient 3 [1, 2, 3] (Some [0, 0, 0]) example_data)
       = Inr (42 / 10)
   \<and> gradient_after (user_function host_gradient 3 [1, 2, 3] (Some [0, 0, 0]) example_data)
       = Some [1, 2, 3]"
proof -
  have h1: "host_short_gradient 2 (plhs example_point_stored) (nrhs example_point_stored)
              (prhs example_point_stored) (f_name example_point_stored)
             = (0, (Some (double_matrix 1 1 [42 / 10]), Some (double_matrix 1 2 [1, 2])))"
    by (simp add: host_short_gradient_def)
  have h2: "host_gradient 2 (plhs example_point_stored) (nrhs example_point_stored)
              (prhs example_point_stored) (f_name example_point_stored)
             = (0, (Some (double_matrix 1 1 [42 / 10]), Some (double_matrix 3 1 [1, 2, 3])))"
    by (simp add: host_gradient_def)
  have r0: "real_scalar (double_matrix 1 1 [42 / 10])"
    by (simp add: real_scalar_def double_matrix_def mxIsNumeric_def)
  have c: "mxGetNumberOfElements (double_matrix 1 2 [1, 2]) = 2"
    by (simp add: mxGetNumberOfElements_def double_matrix_def)
  have ok: "returned (user_function host_gradient 3 [1, 2, 3] (Some [0, 0, 0]) example_data)
              = Inr (42 / 10)"
    by (simp add: example_run_gradient)
  have g: "mxGetData (double_matrix 3 1 [1, 2, 3]) = [1, 2, 3]"
    by (simp add: double_matrix_def)
  show ?thesis
    using h1 h2 r0 c ok g example_store_point
      gradient_shape_checked
        [where host = host_short_gradient and g = "[0, 0, 0]" and v = 0,
         OF example_store_point h1 r0]
      gradient_shape_checked
        [where host = host_gradient and g = "[0, 0, 0]" and v = "42 / 10",
         OF example_store_point h2 r0]
    by simp
qed

text \<open>
  C9. With a null gradient pointer there is no gradient buffer afterwards either; the
  host is asked once, for one result (not at all when storing the point already went
  wrong); and the callback state afterwards differs from the one before at most in the
  two result slots, the counter and the elements of the buffer at position \<^verbatim>\<open>xrhs\<close>.
\<close>

theorem no_gradient_frame:
  "gradient_after (user_function host n x None d) = None
   \<and> requested_results (events (user_function host n x None d))
       = (case store_point n x d of Inl e \<Rightarrow> [] | Inr d1 \<Rightarrow> [1])
   \<and> untouched (d_after (user_function host n x None d)) = untouched d"
proof (cases "store_point n x d")
  case (Inl e)
  then show ?thesis by (simp add: user_function_def)
next
  case (Inr d1)
  obtain status pl where h:
    "host 1 (plhs d1) (nrhs d1) (prhs d1) (f_name d1) = (status, pl)"
    by (cases "host 1 (plhs d1) (nrhs d1) (prhs d1) (f_name d1)")
  show ?thesis
    using Inr h store_point_untouched [OF Inr]
    by (auto simp: user_function_def Let_def split: sum.splits option.splits)
qed

theorem no_gradient_frame_witness:
  "returned (user_function host_scalar 3 [1, 2, 3] None example_data) = Inr (42 / 10)
   \<and> gradient_after (user_function host_scalar 3 [1, 2, 3] None example_data) = None
   \<and> requested_results (events (user_function host_scalar 3 [1, 2, 3] None example_data)) = [1]
   \<and> untouched (d_after (user_function host_scalar 3 [1, 2, 3] None example_data))
       = untouched example_data
   \<and> neval (d_after (user_function host_scalar 3 [1, 2, 3] None example_data)) = 8"
  using no_gradient_frame [of host_scalar 3 "[1, 2, 3]" example_data]
  unfolding example_store_point example_run_scalar
  by simp

end
